theory Spec2Isabelle
  imports Main
begin

section \<open>JavaScript values, objects and thrown errors\<close>

text \<open>
  The controller (\<^verbatim>\<open>user.controller.js\<close>) works on JavaScript values that may be
  \<^verbatim>\<open>undefined\<close>: a cookie that was not sent, a property that an object does not
  have. Values are a datatype, objects are association lists of properties, and reading
  a property that is not there gives \<^verbatim>\<open>undefined\<close>, as in JavaScript.
\<close>

datatype jsval =
    Undefined
  | Null
  | JBool bool
  | JNum int
  | JStr string
  | JObj "(string \<times> jsval) list"

type_synonym obj = "(string \<times> jsval) list"

text \<open>\<^verbatim>\<open>!v\<close> is true exactly when \<^verbatim>\<open>v\<close> is not truthy.\<close>

fun truthy :: "jsval \<Rightarrow> bool" where
  "truthy Undefined = False"
| "truthy Null = False"
| "truthy (JBool b) = b"
| "truthy (JNum n) = (n \<noteq> 0)"
| "truthy (JStr s) = (s \<noteq> [])"
| "truthy (JObj ps) = True"

text \<open>\<^verbatim>\<open>a || b\<close>\<close>

definition js_or :: "jsval \<Rightarrow> jsval \<Rightarrow> jsval" where
  "js_or a b = (if truthy a then a else b)"

text \<open>\<^verbatim>\<open>o.k\<close>, and the destructuring \<^verbatim>\<open>const { k } = o\<close>\<close>

definition js_prop :: "obj \<Rightarrow> string \<Rightarrow> jsval" where
  "js_prop ps k = (case map_of ps k of None \<Rightarrow> Undefined | Some v \<Rightarrow> v)"

text \<open>
  What a handler throws: an \<^verbatim>\<open>ApiError(statusCode, message)\<close> of the repository, or any
  other JavaScript error (a \<^verbatim>\<open>TypeError\<close>, an error of the JWT library or of the
  database driver), of which only the message is ever read.
\<close>

datatype jserror =
    ApiError nat string
  | JsError string

fun message :: "jserror \<Rightarrow> string" where
  "message (ApiError c m) = m"
| "message (JsError m) = m"

fun statusCode :: "jserror \<Rightarrow> nat option" where
  "statusCode (ApiError c m) = Some c"
| "statusCode (JsError m) = None"

section \<open>The user collection\<close>

text \<open>
  Modelled from the spec: the \<^verbatim>\<open>User\<close> schema (\<^verbatim>\<open>models/user.model.js\<close>) is not among
  the sources. The record has the fields of the spec's identity record (id, password hash,
  nullable refresh token) and the two lookup keys the login handler queries. The
  controller itself writes \<^verbatim>\<open>user.refreshToken\<close> (token issuance), sets
  \<^verbatim>\<open>refreshToken\<close> (logout) and deselects \<^verbatim>\<open>-password -refreshToken\<close>
  (registration, login).
\<close>

record user =
  uid :: string
  username :: string
  email :: string
  password :: string
  refreshToken :: jsval

text \<open>Reading a property of a user document by its name: \<^verbatim>\<open>user.k\<close>.\<close>

definition doc_prop :: "user \<Rightarrow> string \<Rightarrow> jsval" where
  "doc_prop u k =
     js_prop [(''_id'', JStr (uid u)),
           (''username'', JStr (username u)),
           (''email'', JStr (email u)),
           (''password'', JStr (password u)),
           (''refreshToken'', refreshToken u)] k"

text \<open>\<^verbatim>\<open>.select("-password -refreshToken")\<close>\<close>

definition select_public :: "user option \<Rightarrow> jsval" where
  "select_public r =
     (case r of
        None \<Rightarrow> Null
      | Some u \<Rightarrow> JObj [(''_id'', JStr (uid u)),
                         (''username'', JStr (username u)),
                         (''email'', JStr (email u))])"

text \<open>
  The database is the list of user documents; a read or a write of it can fail (the
  driver throws), which the two flags decide.
\<close>

record store =
  docs :: "user list"
  read_ok :: bool
  write_ok :: bool

text \<open>\<^verbatim>\<open>User.findById(id)\<close>: the document, or \<^verbatim>\<open>null\<close>.\<close>

definition findById :: "store \<Rightarrow> jsval \<Rightarrow> jserror + user option" where
  "findById s i =
     (if read_ok s then Inr (find (\<lambda>d. JStr (uid d) = i) (docs s))
      else Inl (JsError ''MongoError''))"

text \<open>\<^verbatim>\<open>User.findOne({ $or: [{ username }, { email }] })\<close>\<close>

definition findOne :: "store \<Rightarrow> jsval \<Rightarrow> jsval \<Rightarrow> jserror + user option" where
  "findOne s un em =
     (if read_ok s
      then Inr (find (\<lambda>d. JStr (username d) = un \<or> JStr (email d) = em) (docs s))
      else Inl (JsError ''MongoError''))"

text \<open>\<^verbatim>\<open>user.save({ validateBeforeSave: false })\<close>: the document replaces the stored one.\<close>

definition save :: "store \<Rightarrow> user \<Rightarrow> jserror + store" where
  "save s u =
     (if write_ok s
      then Inr (s\<lparr>docs := map (\<lambda>d. if uid d = uid u then u else d) (docs s)\<rparr>)
      else Inl (JsError ''MongoError''))"

text \<open>
  \<^verbatim>\<open>User.findByIdAndUpdate(id, { $set: { refreshToken: v } }, { new: true })\<close>. The
  database library (Mongoose 6 and later) removes from an update every key whose value is
  \<^verbatim>\<open>undefined\<close> before it sends the update: with \<open>v\<close> \<^verbatim>\<open>undefined\<close> the
  \<^verbatim>\<open>$set\<close> is empty, no document changes and the call still succeeds. With any other
  \<open>v\<close> the field of the matching document becomes \<open>v\<close>.
\<close>

definition findByIdAndUpdate :: "store \<Rightarrow> jsval \<Rightarrow> jsval \<Rightarrow> jserror + store" where
  "findByIdAndUpdate s i v =
     (if write_ok s
      then Inr (if v = Undefined then s
                else s\<lparr>docs := map (\<lambda>d. if JStr (uid d) = i then d\<lparr>refreshToken := v\<rparr> else d)
                                    (docs s)\<rparr>)
      else Inl (JsError ''MongoError''))"

text \<open>The refresh token persisted for an identity, if the identity has a record.\<close>

definition persisted :: "store \<Rightarrow> string \<Rightarrow> jsval option" where
  "persisted s i = map_option refreshToken (find (\<lambda>d. uid d = i) (docs s))"

section \<open>Collaborators that the controller calls\<close>

text \<open>
  The JWT library (\<^verbatim>\<open>jwt.verify\<close>), the process configuration and the methods of the
  user model (\<^verbatim>\<open>generateAccessToken\<close>, \<^verbatim>\<open>generateRefreshToken\<close>,
  \<^verbatim>\<open>isPasswordCorrect\<close>) are not among the sources: they are parameters of every
  handler, and each of them may throw.
\<close>

record env =
  jwt_verify :: "jsval \<Rightarrow> string \<Rightarrow> jserror + obj"
  REFRESH_TOKEN_SECRET :: string
  generateAccessToken :: "user \<Rightarrow> jserror + string"
  generateRefreshToken :: "user \<Rightarrow> jserror + string"
  isPasswordCorrect :: "user \<Rightarrow> jsval \<Rightarrow> jserror + bool"

record request =
  cookies :: obj
  body :: obj
  req_user :: "user option"

text \<open>
  What a handler sends: \<^verbatim>\<open>res.status(c).cookie(..).clearCookie(..).json(new
  ApiResponse(c, data, message))\<close>.
\<close>

record response =
  status :: nat
  set_cookies :: obj
  cleared_cookies :: "string list"
  data :: obj
  response_message :: string

section \<open>Token issuance\<close>

text \<open>
  \<^verbatim>\<open>generateAccessAndRefreshToken\<close>, the body of its \<^verbatim>\<open>try\<close>: calling a method on
  the \<^verbatim>\<open>null\<close> that \<^verbatim>\<open>findById\<close> gives for an unknown id throws a
  \<^verbatim>\<open>TypeError\<close>.
\<close>

definition generate_try :: "env \<Rightarrow> store \<Rightarrow> jsval \<Rightarrow> (jserror + obj) \<times> store" where
  "generate_try E s userId =
     (case findById s userId of
        Inl e \<Rightarrow> (Inl e, s)
      | Inr None \<Rightarrow> (Inl (JsError ''TypeError''), s)
      | Inr (Some u) \<Rightarrow>
          (case generateAccessToken E u of
             Inl e \<Rightarrow> (Inl e, s)
           | Inr accessToken \<Rightarrow>
               (case generateRefreshToken E u of
                  Inl e \<Rightarrow> (Inl e, s)
                | Inr refreshToken' \<Rightarrow>
                    (case save s (u\<lparr>refreshToken := JStr refreshToken'\<rparr>) of
                       Inl e \<Rightarrow> (Inl e, s)
                     | Inr s' \<Rightarrow>
                         (Inr [(''accessToken'', JStr accessToken),
                               (''refreshToken'', JStr refreshToken')], s')))))"

text \<open>The \<^verbatim>\<open>catch\<close> replaces whatever was thrown by one fixed error.\<close>

definition issue_failed :: jserror where
  "issue_failed =
     ApiError 500 ''Something went wrong while generating the access and refresh token''"

definition generateAccessAndRefreshToken ::
  "env \<Rightarrow> store \<Rightarrow> jsval \<Rightarrow> (jserror + obj) \<times> store" where
  "generateAccessAndRefreshToken E s userId =
     (case generate_try E s userId of
        (Inl e, s') \<Rightarrow> (Inl issue_failed, s')
      | (Inr pair, s') \<Rightarrow> (Inr pair, s'))"

section \<open>Login, logout and refresh\<close>

definition loginUser :: "env \<Rightarrow> store \<Rightarrow> request \<Rightarrow> (jserror + response) \<times> store" where
  "loginUser E s req =
     (let email' = js_prop (body req) ''email'';
          username' = js_prop (body req) ''username'';
          password' = js_prop (body req) ''password''
      in if \<not> truthy username' \<and> \<not> truthy email'
         then (Inl (ApiError 400 ''username or email is required !''), s)
         else
           (case findOne s username' email' of
              Inl e \<Rightarrow> (Inl e, s)
            | Inr None \<Rightarrow> (Inl (ApiError 404 ''User does not exist''), s)
            | Inr (Some u) \<Rightarrow>
                (case isPasswordCorrect E u password' of
                   Inl e \<Rightarrow> (Inl e, s)
                 | Inr isPasswordValid \<Rightarrow>
                     if \<not> isPasswordValid
                     then (Inl (ApiError 401 ''Invalid user credentials !''), s)
                     else
                       (case generateAccessAndRefreshToken E s (JStr (uid u)) of
                          (Inl e, s1) \<Rightarrow> (Inl e, s1)
                        | (Inr pair, s1) \<Rightarrow>
                            (let accessToken = js_prop pair ''accessToken'';
                                 refreshToken' = js_prop pair ''refreshToken''
                             in case findById s1 (JStr (uid u)) of
                                  Inl e \<Rightarrow> (Inl e, s1)
                                | Inr loggedInUser \<Rightarrow>
                                    (Inr \<lparr>status = 200,
                                          set_cookies = [(''accessToken'', accessToken),
                                                         (''refreshToken'', refreshToken')],
                                          cleared_cookies = [],
                                          data = [(''user'', select_public loggedInUser),
                                                  (''accessToken'', accessToken),
                                                  (''refreshToken'', refreshToken')],
                                          response_message =
                                            ''user logged in successfully !''\<rparr>, s1))))))"

text \<open>
  \<^verbatim>\<open>logoutUser\<close> runs behind the \<^verbatim>\<open>verifyJWT\<close> middleware, which sets
  \<^verbatim>\<open>req.user\<close>; reading \<^verbatim>\<open>req.user._id\<close> without it throws. The update it
  sends is \<^verbatim>\<open>{ $set: { refreshToken: undefined } }\<close>.
\<close>

definition logoutUser :: "env \<Rightarrow> store \<Rightarrow> request \<Rightarrow> (jserror + response) \<times> store" where
  "logoutUser E s req =
     (case req_user req of
        None \<Rightarrow> (Inl (JsError ''TypeError''), s)
      | Some u \<Rightarrow>
          (case findByIdAndUpdate s (JStr (uid u)) Undefined of
             Inl e \<Rightarrow> (Inl e, s)
           | Inr s' \<Rightarrow>
               (Inr \<lparr>status = 200,
                     set_cookies = [],
                     cleared_cookies = [''accessToken'', ''refreshToken''],
                     data = [],
                     response_message = ''User Logged Out''\<rparr>, s')))"

text \<open>
  \<^verbatim>\<open>refereshAccessToken\<close>, the body of its \<^verbatim>\<open>try\<close>. The comparison reads the
  property \<^verbatim>\<open>refereshAccessToken\<close> of the user document, and the result of the issuer
  is destructured as \<^verbatim>\<open>{ accessToken, newRefreshToken }\<close>.
\<close>

definition refresh_try :: "env \<Rightarrow> store \<Rightarrow> jsval \<Rightarrow> (jserror + response) \<times> store" where
  "refresh_try E s incomingRefreshToken =
     (case jwt_verify E incomingRefreshToken (REFRESH_TOKEN_SECRET E) of
        Inl e \<Rightarrow> (Inl e, s)
      | Inr decodedToken \<Rightarrow>
          (case findById s (js_prop decodedToken ''_id'') of
             Inl e \<Rightarrow> (Inl e, s)
           | Inr None \<Rightarrow> (Inl (ApiError 401 ''Invalid refresh token''), s)
           | Inr (Some u) \<Rightarrow>
               if incomingRefreshToken \<noteq> doc_prop u ''refereshAccessToken''
               then (Inl (ApiError 401 ''Refresh Token is expiered or used''), s)
               else
                 (case generateAccessAndRefreshToken E s (JStr (uid u)) of
                    (Inl e, s1) \<Rightarrow> (Inl e, s1)
                  | (Inr pair, s1) \<Rightarrow>
                      (let accessToken = js_prop pair ''accessToken'';
                           newRefreshToken = js_prop pair ''newRefreshToken''
                       in (Inr \<lparr>status = 200,
                                set_cookies = [(''accessToken'', accessToken),
                                               (''refreshToken'', newRefreshToken)],
                                cleared_cookies = [],
                                data = [(''accessToken'', accessToken),
                                        (''refreshToken'', newRefreshToken)],
                                response_message =
                                  ''Access token refreshed successfully!''\<rparr>, s1)))))"

text \<open>The \<^verbatim>\<open>catch\<close>: \<^verbatim>\<open>new ApiError(401, error?.message || "Invalid refresh token")\<close>.\<close>

definition refresh_catch :: "jserror \<Rightarrow> jserror" where
  "refresh_catch e =
     ApiError 401 (if message e = [] then ''Invalid refresh token'' else message e)"

definition refereshAccessToken ::
  "env \<Rightarrow> store \<Rightarrow> request \<Rightarrow> (jserror + response) \<times> store" where
  "refereshAccessToken E s req =
     (let incomingRefreshToken =
            js_or (js_prop (cookies req) ''refreshToken'') (js_prop (body req) ''refreshToken'')
      in if \<not> truthy incomingRefreshToken
         then (Inl (ApiError 401 ''unauthorized request''), s)
         else
           (case refresh_try E s incomingRefreshToken of
              (Inl e, s1) \<Rightarrow> (Inl (refresh_catch e), s1)
            | (Inr r, s1) \<Rightarrow> (Inr r, s1)))"

section \<open>Access tokens as the spec describes them\<close>

text \<open>
  Modelled from the spec: the token methods of the user model
  (\<^verbatim>\<open>models/user.model.js\<close>) and the \<^verbatim>\<open>verifyJWT\<close> middleware
  (\<^verbatim>\<open>middlewares/auth.middleware.js\<close>) are not among the sources. By the spec an access
  token is a signed assertion of identity-id, issued-at and expires-at, and Operation A
  rejects an absent token as \<^verbatim>\<open>Unauthenticated\<close>, a token failing the signature or
  structure check as \<^verbatim>\<open>InvalidToken\<close>, a token past its expires-at as
  \<^verbatim>\<open>TokenExpired\<close>, and otherwise resolves to the embedded identity-id without touching
  the store. Signing and checking are the JWT library's and stay parameters.
\<close>

record jwt =
  jwt_sign :: "obj \<Rightarrow> string \<Rightarrow> jserror + string"
  jwt_check :: "jsval \<Rightarrow> string \<Rightarrow> jserror + obj"
  ACCESS_TOKEN_SECRET :: string
  ACCESS_TOKEN_EXPIRY :: int

definition signAccessToken :: "jwt \<Rightarrow> int \<Rightarrow> user \<Rightarrow> jserror + string" where
  "signAccessToken J now u =
     jwt_sign J [(''_id'', JStr (uid u)),
                 (''iat'', JNum now),
                 (''exp'', JNum (now + ACCESS_TOKEN_EXPIRY J))] (ACCESS_TOKEN_SECRET J)"

datatype auth_error = Unauthenticated | InvalidToken | TokenExpired

definition verifyJWT :: "jwt \<Rightarrow> int \<Rightarrow> jsval \<Rightarrow> auth_error + jsval" where
  "verifyJWT J now token =
     (if token = Undefined then Inl Unauthenticated
      else
        (case jwt_check J token (ACCESS_TOKEN_SECRET J) of
           Inl e \<Rightarrow> Inl InvalidToken
         | Inr p \<Rightarrow>
             (case js_prop p ''exp'' of
                JNum expires \<Rightarrow>
                  if expires < now then Inl TokenExpired else Inr (js_prop p ''_id'')
              | _ \<Rightarrow> Inl InvalidToken)))"

section \<open>A concrete scenario\<close>

text \<open>
  One user, \<^verbatim>\<open>alice\<close>, whose persisted refresh token is \<^verbatim>\<open>rt-u1-v1\<close>; a JWT library
  that accepts that token and one naming an identity \<^verbatim>\<open>u9\<close> that has no record; token
  methods that mint the second generation of tokens. The theorems below are exercised on
  it.
\<close>

definition alice :: user where
  "alice = \<lparr>uid = ''u1'', username = ''alice'', email = ''alice@example.com'',
            password = ''hash-of-alice'', refreshToken = JStr ''rt-u1-v1''\<rparr>"

definition demo_store :: store where
  "demo_store = \<lparr>docs = [alice], read_ok = True, write_ok = True\<rparr>"

text \<open>The store while the database refuses writes, and after alice's token was rotated.\<close>

definition down_store :: store where
  "down_store = \<lparr>docs = [alice], read_ok = True, write_ok = False\<rparr>"

definition rotated_store :: store where
  "rotated_store =
     \<lparr>docs = [alice\<lparr>refreshToken := JStr ''rt-u1-v2''\<rparr>], read_ok = True, write_ok = True\<rparr>"

definition demo_verify :: "jsval \<Rightarrow> string \<Rightarrow> jserror + obj" where
  "demo_verify t k =
     (if k = ''refresh-secret'' \<and> t = JStr ''rt-u1-v1'' then Inr [(''_id'', JStr ''u1'')]
      else if k = ''refresh-secret'' \<and> t = JStr ''rt-u9-v1'' then Inr [(''_id'', JStr ''u9'')]
      else Inl (JsError ''invalid signature''))"

definition demo_env :: env where
  "demo_env =
     \<lparr>jwt_verify = demo_verify,
      REFRESH_TOKEN_SECRET = ''refresh-secret'',
      generateAccessToken = (\<lambda>u. Inr (''at-'' @ uid u @ ''-v2'')),
      generateRefreshToken = (\<lambda>u. Inr (''rt-'' @ uid u @ ''-v2'')),
      isPasswordCorrect = (\<lambda>u p. Inr (p = JStr ''correct horse''))\<rparr>"

definition refresh_request :: "jsval \<Rightarrow> request" where
  "refresh_request t = \<lparr>cookies = [(''refreshToken'', t)], body = [], req_user = None\<rparr>"

definition login_request :: "string \<Rightarrow> string \<Rightarrow> request" where
  "login_request un pw =
     \<lparr>cookies = [], body = [(''username'', JStr un), (''password'', JStr pw)],
      req_user = None\<rparr>"

definition logout_request :: "user \<Rightarrow> request" where
  "logout_request u = \<lparr>cookies = [], body = [], req_user = Some u\<rparr>"

definition demo_payload :: obj where
  "demo_payload = [(''_id'', JStr ''u1''), (''iat'', JNum 1000), (''exp'', JNum 1900)]"

definition demo_jwt :: jwt where
  "demo_jwt =
     \<lparr>jwt_sign = (\<lambda>p k. if p = demo_payload \<and> k = ''access-secret''
                         then Inr ''at-u1-1000'' else Inl (JsError ''cannot sign'')),
      jwt_check = (\<lambda>t k. if t = JStr ''at-u1-1000'' \<and> k = ''access-secret''
                          then Inr demo_payload else Inl (JsError ''invalid signature'')),
      ACCESS_TOKEN_SECRET = ''access-secret'',
      ACCESS_TOKEN_EXPIRY = 900\<rparr>"

definition demo_env_jwt :: env where
  "demo_env_jwt = demo_env\<lparr>generateAccessToken := signAccessToken demo_jwt 1000\<rparr>"

section \<open>Properties of the refresh comparison\<close>

lemma doc_prop_refereshAccessToken: "doc_prop u ''refereshAccessToken'' = Undefined"
  by (simp add: doc_prop_def js_prop_def)

lemma doc_prop_refreshToken: "doc_prop u ''refreshToken'' = refreshToken u"
  by (simp add: doc_prop_def js_prop_def)

lemma truthy_not_Undefined: "truthy v \<Longrightarrow> v \<noteq> Undefined"
  by (cases v) simp_all

lemma refresh_try_found:
  assumes "truthy t"
    and "jwt_verify E t (REFRESH_TOKEN_SECRET E) = Inr p"
    and "findById s (js_prop p ''_id'') = Inr (Some u)"
  shows "refresh_try E s t = (Inl (ApiError 401 ''Refresh Token is expiered or used''), s)"
  using assms truthy_not_Undefined [of t]
  by (simp add: refresh_try_def doc_prop_refereshAccessToken)

lemma refresh_try_fails: "truthy t \<Longrightarrow> \<exists>e. refresh_try E s t = (Inl e, s)"
  by (auto simp: refresh_try_def doc_prop_refereshAccessToken
      dest: truthy_not_Undefined split: sum.splits option.splits)

lemma refresh_found:
  assumes present: "js_or (js_prop (cookies req) ''refreshToken'')
                          (js_prop (body req) ''refreshToken'') = t" "truthy t"
    and signed: "jwt_verify E t (REFRESH_TOKEN_SECRET E) = Inr p"
    and found: "findById s (js_prop p ''_id'') = Inr (Some u)"
  shows "refereshAccessToken E s req =
           (Inl (ApiError 401 ''Refresh Token is expiered or used''), s)"
  using present refresh_try_found [OF present(2) signed found]
  by (simp add: refereshAccessToken_def Let_def refresh_catch_def)

lemma demo_presented:
  "js_or (js_prop (cookies (refresh_request t)) ''refreshToken'')
         (js_prop (body (refresh_request t)) ''refreshToken'') = (if truthy t then t else Undefined)"
  by (simp add: refresh_request_def js_or_def js_prop_def)

lemma demo_signed:
  "jwt_verify demo_env (JStr ''rt-u1-v1'') (REFRESH_TOKEN_SECRET demo_env) =
     Inr [(''_id'', JStr ''u1'')]"
  by (simp add: demo_env_def demo_verify_def)

lemma demo_found:
  "findById demo_store (js_prop [(''_id'', JStr ''u1'')] ''_id'') = Inr (Some alice)"
  by (simp add: findById_def demo_store_def js_prop_def alice_def)

lemma demo_persisted: "persisted demo_store ''u1'' = Some (JStr ''rt-u1-v1'')"
  by (simp add: persisted_def demo_store_def alice_def)

text \<open>
  C1. After the presence, signature and identity-lookup checks the handler compares the
  presented token with \<^verbatim>\<open>user?.refereshAccessToken\<close>, a property that no user document
  has, and not with the persisted \<^verbatim>\<open>refreshToken\<close>: whatever value is persisted, and
  also when it is the presented token itself, the request fails with the 401 "Refresh
  Token is expiered or used".
\<close>

theorem refresh_compares_unset_property:
  assumes "js_or (js_prop (cookies req) ''refreshToken'')
                 (js_prop (body req) ''refreshToken'') = t"
    and "truthy t"
    and "jwt_verify E t (REFRESH_TOKEN_SECRET E) = Inr p"
    and "findById s (js_prop p ''_id'') = Inr (Some u)"
    and "refreshToken u = t"
  shows "doc_prop u ''refreshToken'' = t
       \<and> doc_prop u ''refereshAccessToken'' = Undefined
       \<and> refereshAccessToken E s req =
           (Inl (ApiError 401 ''Refresh Token is expiered or used''), s)"
  using assms refresh_found [of req t E p s u]
  by (simp add: doc_prop_refereshAccessToken doc_prop_refreshToken)

theorem refresh_compares_unset_property_witness:
  "persisted demo_store ''u1'' = Some (JStr ''rt-u1-v1'')
   \<and> refreshToken alice = JStr ''rt-u1-v1''
   \<and> doc_prop alice ''refreshToken'' = JStr ''rt-u1-v1''
   \<and> refereshAccessToken demo_env demo_store (refresh_request (JStr ''rt-u1-v1'')) =
        (Inl (ApiError 401 ''Refresh Token is expiered or used''), demo_store)"
proof -
  have a: "js_or (js_prop (cookies (refresh_request (JStr ''rt-u1-v1''))) ''refreshToken'')
                 (js_prop (body (refresh_request (JStr ''rt-u1-v1''))) ''refreshToken'') =
           JStr ''rt-u1-v1''"
    by (simp add: demo_presented)
  have b: "truthy (JStr ''rt-u1-v1'')" by simp
  have e: "refreshToken alice = JStr ''rt-u1-v1''" by (simp add: alice_def)
  from refresh_compares_unset_property [OF a b demo_signed demo_found e] e demo_persisted
  show ?thesis by simp
qed

text \<open>
  C2. No refresh request is answered with a token pair, and none changes the store: the
  comparison above rejects every request that reaches it, so the issuer is never called
  from the refresh handler. At the request presenting alice's persisted token the result
  is the 401 and her persisted token is still the old one.
\<close>

theorem refresh_never_issues:
  "(\<exists>e. refereshAccessToken E s req = (Inl e, s))
   \<and> refereshAccessToken demo_env demo_store (refresh_request (JStr ''rt-u1-v1'')) =
        (Inl (ApiError 401 ''Refresh Token is expiered or used''), demo_store)
   \<and> persisted demo_store ''u1'' = Some (JStr ''rt-u1-v1'')"
proof -
  let ?t = "js_or (js_prop (cookies req) ''refreshToken'') (js_prop (body req) ''refreshToken'')"
  have general: "\<exists>e. refereshAccessToken E s req = (Inl e, s)"
  proof (cases "truthy ?t")
    case True
    from refresh_try_fails [OF True, of E s]
    obtain e where "refresh_try E s ?t = (Inl e, s)" ..
    with True show ?thesis by (simp add: refereshAccessToken_def Let_def)
  next
    case False
    then show ?thesis by (simp add: refereshAccessToken_def Let_def)
  qed
  have concrete:
    "refereshAccessToken demo_env demo_store (refresh_request (JStr ''rt-u1-v1'')) =
       (Inl (ApiError 401 ''Refresh Token is expiered or used''), demo_store)"
    by (rule refresh_found [OF _ _ demo_signed demo_found]) (simp_all add: demo_presented)
  from general concrete demo_persisted show ?thesis by simp
qed

text \<open>
  The pair that the issuer returns has the properties \<^verbatim>\<open>accessToken\<close> and
  \<^verbatim>\<open>refreshToken\<close>; the refresh handler destructures \<^verbatim>\<open>newRefreshToken\<close>, which is
  \<^verbatim>\<open>undefined\<close> on every such pair.
\<close>

lemma issued_pair_has_no_newRefreshToken:
  "js_prop [(''accessToken'', JStr a), (''refreshToken'', JStr r)] ''newRefreshToken'' = Undefined"
  by (simp add: js_prop_def)


section \<open>Properties of token issuance\<close>

lemma find_Some_holds: "find P xs = Some x \<Longrightarrow> P x"
  by (induction xs) (auto split: if_splits)

lemma find_map_replace:
  assumes "find (\<lambda>d. uid d = i) xs = Some u" and "uid u' = i"
  shows "find (\<lambda>d. uid d = i) (map (\<lambda>d. if uid d = i then u' else d) xs) = Some u'"
  using assms by (induction xs) (auto split: if_splits)

lemma generate_try_failure: "generate_try E s userId = (Inl e, s') \<Longrightarrow> s' = s"
  by (auto simp: generate_try_def split: sum.splits option.splits)

lemma generate_try_success:
  assumes "generate_try E s userId = (Inr pair, s')"
  shows "\<exists>u a r. findById s userId = Inr (Some u)
               \<and> generateAccessToken E u = Inr a
               \<and> generateRefreshToken E u = Inr r
               \<and> save s (u\<lparr>refreshToken := JStr r\<rparr>) = Inr s'
               \<and> pair = [(''accessToken'', JStr a), (''refreshToken'', JStr r)]"
  using assms by (auto simp: generate_try_def split: sum.splits option.splits)

lemma generate_try_down: "\<not> write_ok s \<Longrightarrow> \<exists>e. generate_try E s userId = (Inl e, s)"
  by (auto simp: generate_try_def save_def split: sum.splits option.splits)

lemma issue_failure:
  "generateAccessAndRefreshToken E s userId = (Inl e, s') \<Longrightarrow> e = issue_failed \<and> s' = s"
  by (auto simp: generateAccessAndRefreshToken_def split: prod.splits sum.splits
      dest: generate_try_failure)

lemma issue_success:
  assumes "generateAccessAndRefreshToken E s userId = (Inr pair, s')"
  shows "\<exists>u a r. findById s userId = Inr (Some u)
               \<and> generateAccessToken E u = Inr a
               \<and> generateRefreshToken E u = Inr r
               \<and> save s (u\<lparr>refreshToken := JStr r\<rparr>) = Inr s'
               \<and> pair = [(''accessToken'', JStr a), (''refreshToken'', JStr r)]"
proof -
  from assms have "generate_try E s userId = (Inr pair, s')"
    by (auto simp: generateAccessAndRefreshToken_def split: prod.splits sum.splits)
  then show ?thesis by (rule generate_try_success)
qed

lemma issue_down:
  "\<not> write_ok s \<Longrightarrow> generateAccessAndRefreshToken E s userId = (Inl issue_failed, s)"
  using generate_try_down [of s E userId]
  by (auto simp: generateAccessAndRefreshToken_def)

lemma issue_unknown:
  "findById s userId = Inr None \<Longrightarrow>
     generateAccessAndRefreshToken E s userId = (Inl issue_failed, s)"
  by (simp add: generateAccessAndRefreshToken_def generate_try_def)

text \<open>What a successful save of the found document leaves in the store.\<close>

lemma saved_document:
  assumes found: "findById s userId = Inr (Some u)"
    and saved: "save s (u\<lparr>refreshToken := v\<rparr>) = Inr s'"
  shows "userId = JStr (uid u)"
    and "read_ok s' = read_ok s"
    and "find (\<lambda>d. uid d = uid u) (docs s') = Some (u\<lparr>refreshToken := v\<rparr>)"
proof -
  from found have ok: "read_ok s" and f: "find (\<lambda>d. JStr (uid d) = userId) (docs s) = Some u"
    by (auto simp: findById_def split: if_splits)
  from find_Some_holds [OF f] show i: "userId = JStr (uid u)" by simp
  from saved show "read_ok s' = read_ok s"
    by (auto simp: save_def split: if_splits)
  from f i have "find (\<lambda>d. uid d = uid u) (docs s) = Some u" by simp
  from find_map_replace [OF this, of "u\<lparr>refreshToken := v\<rparr>"] saved
  show "find (\<lambda>d. uid d = uid u) (docs s') = Some (u\<lparr>refreshToken := v\<rparr>)"
    by (auto simp: save_def split: if_splits)
qed

lemma issue_persists:
  assumes "generateAccessAndRefreshToken E s userId = (Inr pair, s')"
  shows "\<exists>a r i u. pair = [(''accessToken'', JStr a), (''refreshToken'', JStr r)]
                 \<and> userId = JStr i
                 \<and> persisted s' i = Some (JStr r)
                 \<and> findById s' userId = Inr (Some u)"
proof -
  from issue_success [OF assms] obtain u a r where
    found: "findById s userId = Inr (Some u)"
    and saved: "save s (u\<lparr>refreshToken := JStr r\<rparr>) = Inr s'"
    and pair: "pair = [(''accessToken'', JStr a), (''refreshToken'', JStr r)]"
    by blast
  note doc = saved_document [OF found saved]
  from found have "read_ok s" by (auto simp: findById_def split: if_splits)
  with doc have "findById s' userId = Inr (Some (u\<lparr>refreshToken := JStr r\<rparr>))"
    by (simp add: findById_def)
  moreover from doc have "persisted s' (uid u) = Some (JStr r)"
    by (simp add: persisted_def)
  ultimately show ?thesis using pair doc(1) by blast
qed

lemma demo_issue:
  "generateAccessAndRefreshToken demo_env demo_store (JStr ''u1'') =
     (Inr [(''accessToken'', JStr ''at-u1-v2''), (''refreshToken'', JStr ''rt-u1-v2'')],
      rotated_store)"
  by (simp add: generateAccessAndRefreshToken_def generate_try_def findById_def save_def
      demo_env_def demo_store_def rotated_store_def alice_def)

text \<open>
  C5. Token issuance either fails with the one fixed 500 error, leaving the store as it
  was and surfacing no token, or returns both tokens with the returned refresh token
  persisted on the identity's record; when the store refuses the write, it is the
  failure.
\<close>

theorem issuance_all_or_nothing:
  "(\<not> write_ok s \<longrightarrow> generateAccessAndRefreshToken E s userId = (Inl issue_failed, s))
   \<and> (generateAccessAndRefreshToken E s userId = (Inl issue_failed, s)
      \<or> (\<exists>a r i s'. generateAccessAndRefreshToken E s userId =
                       (Inr [(''accessToken'', JStr a), (''refreshToken'', JStr r)], s')
                    \<and> userId = JStr i \<and> persisted s' i = Some (JStr r)))"
proof (intro conjI impI)
  assume "\<not> write_ok s"
  then show "generateAccessAndRefreshToken E s userId = (Inl issue_failed, s)"
    by (rule issue_down)
next
  obtain res s' where r: "generateAccessAndRefreshToken E s userId = (res, s')"
    by (cases "generateAccessAndRefreshToken E s userId")
  show "generateAccessAndRefreshToken E s userId = (Inl issue_failed, s)
      \<or> (\<exists>a r i s'. generateAccessAndRefreshToken E s userId =
                       (Inr [(''accessToken'', JStr a), (''refreshToken'', JStr r)], s')
                    \<and> userId = JStr i \<and> persisted s' i = Some (JStr r))"
  proof (cases res)
    case (Inl e)
    with r issue_failure [of E s userId e s'] show ?thesis by simp
  next
    case (Inr pair)
    with r issue_persists [of E s userId pair s'] show ?thesis by auto
  qed
qed

theorem issuance_all_or_nothing_witness:
  "\<not> write_ok down_store
   \<and> generateAccessAndRefreshToken demo_env down_store (JStr ''u1'') =
       (Inl issue_failed, down_store)
   \<and> persisted down_store ''u1'' = Some (JStr ''rt-u1-v1'')
   \<and> generateAccessAndRefreshToken demo_env demo_store (JStr ''u1'') =
       (Inr [(''accessToken'', JStr ''at-u1-v2''), (''refreshToken'', JStr ''rt-u1-v2'')],
        rotated_store)
   \<and> persisted rotated_store ''u1'' = Some (JStr ''rt-u1-v2'')"
proof -
  have down: "\<not> write_ok down_store" by (simp add: down_store_def)
  have old: "persisted down_store ''u1'' = Some (JStr ''rt-u1-v1'')"
    by (simp add: down_store_def persisted_def alice_def)
  have new: "persisted rotated_store ''u1'' = Some (JStr ''rt-u1-v2'')"
    by (simp add: rotated_store_def persisted_def alice_def)
  from issuance_all_or_nothing [of down_store demo_env "JStr ''u1''"] down
  have "generateAccessAndRefreshToken demo_env down_store (JStr ''u1'') =
          (Inl issue_failed, down_store)"
    by simp
  with down old new demo_issue show ?thesis by simp
qed

text \<open>
  C10. Issuance for an identity id that has no record fails with the same fixed 500
  error as issuance against a store that refuses the write, not with an error of its
  own: the \<^verbatim>\<open>TypeError\<close> raised on the missing document is replaced by the catch
  clause, and the store is left as it was.
\<close>

theorem issuance_unknown_identity:
  assumes "findById s userId = Inr None"
    and "\<not> write_ok s2"
  shows "generateAccessAndRefreshToken E s userId = (Inl issue_failed, s)
       \<and> generateAccessAndRefreshToken E2 s2 userId2 = (Inl issue_failed, s2)
       \<and> issue_failed =
           ApiError 500 ''Something went wrong while generating the access and refresh token''"
  using assms by (simp add: issue_unknown issue_down) (simp add: issue_failed_def)

theorem issuance_unknown_identity_witness:
  "findById demo_store (JStr ''u7'') = Inr None
   \<and> \<not> write_ok down_store
   \<and> generateAccessAndRefreshToken demo_env demo_store (JStr ''u7'') =
       (Inl issue_failed, demo_store)
   \<and> generateAccessAndRefreshToken demo_env down_store (JStr ''u1'') =
       (Inl issue_failed, down_store)"
proof -
  have a: "findById demo_store (JStr ''u7'') = Inr None"
    by (simp add: findById_def demo_store_def alice_def)
  have b: "\<not> write_ok down_store" by (simp add: down_store_def)
  from issuance_unknown_identity [OF a b, of demo_env demo_env "JStr ''u1''"] a b
  show ?thesis by simp
qed


section \<open>Rotation and logout\<close>

text \<open>
  C3. When issuance for an identity succeeds, returning the refresh token \<open>v2\<close>, the
  identity's persisted refresh-token field holds \<open>v2\<close> (the record has the one field,
  so the token it held before is gone), and a later refresh request presenting any token
  \<open>v1\<close> whose signature is still valid for that identity, such as the token issued
  before, fails with the 401 "Refresh Token is expiered or used" and leaves the store as
  it is.
\<close>

theorem rotation_rejects_previous_token:
  assumes issue: "generateAccessAndRefreshToken E s (JStr i) = (Inr pair, s')"
    and present: "js_or (js_prop (cookies req) ''refreshToken'')
                        (js_prop (body req) ''refreshToken'') = v1" "truthy v1"
    and valid: "jwt_verify E' v1 (REFRESH_TOKEN_SECRET E') = Inr p" "js_prop p ''_id'' = JStr i"
  shows "(\<exists>v2. js_prop pair ''refreshToken'' = JStr v2 \<and> persisted s' i = Some (JStr v2))
       \<and> refereshAccessToken E' s' req =
           (Inl (ApiError 401 ''Refresh Token is expiered or used''), s')"
proof -
  from issue_persists [OF issue] obtain a r u where
    pair: "pair = [(''accessToken'', JStr a), (''refreshToken'', JStr r)]"
    and stored: "persisted s' i = Some (JStr r)"
    and found: "findById s' (JStr i) = Inr (Some u)"
    by auto
  from pair have "js_prop pair ''refreshToken'' = JStr r"
    by (simp add: js_prop_def)
  moreover from found valid(2) have "findById s' (js_prop p ''_id'') = Inr (Some u)"
    by simp
  from refresh_found [OF present valid(1) this]
  have "refereshAccessToken E' s' req =
          (Inl (ApiError 401 ''Refresh Token is expiered or used''), s')" .
  ultimately show ?thesis using stored by simp
qed

theorem rotation_rejects_previous_token_witness:
  "generateAccessAndRefreshToken demo_env demo_store (JStr ''u1'') =
     (Inr [(''accessToken'', JStr ''at-u1-v2''), (''refreshToken'', JStr ''rt-u1-v2'')],
      rotated_store)
   \<and> persisted demo_store ''u1'' = Some (JStr ''rt-u1-v1'')
   \<and> persisted rotated_store ''u1'' = Some (JStr ''rt-u1-v2'')
   \<and> jwt_verify demo_env (JStr ''rt-u1-v1'') (REFRESH_TOKEN_SECRET demo_env) =
       Inr [(''_id'', JStr ''u1'')]
   \<and> refereshAccessToken demo_env rotated_store (refresh_request (JStr ''rt-u1-v1'')) =
       (Inl (ApiError 401 ''Refresh Token is expiered or used''), rotated_store)"
proof -
  have a: "js_or (js_prop (cookies (refresh_request (JStr ''rt-u1-v1''))) ''refreshToken'')
                 (js_prop (body (refresh_request (JStr ''rt-u1-v1''))) ''refreshToken'') =
           JStr ''rt-u1-v1''"
    by (simp add: demo_presented)
  have b: "truthy (JStr ''rt-u1-v1'')" by simp
  have c: "js_prop [(''_id'', JStr ''u1'')] ''_id'' = JStr ''u1''"
    by (simp add: js_prop_def)
  from rotation_rejects_previous_token [OF demo_issue a b demo_signed c]
    demo_issue demo_signed demo_persisted
  show ?thesis by (simp add: js_prop_def)
qed

lemma logout_store:
  assumes "req_user req = Some u" and "write_ok s"
  shows "logoutUser E s req =
           (Inr \<lparr>status = 200, set_cookies = [],
                 cleared_cookies = [''accessToken'', ''refreshToken''], data = [],
                 response_message = ''User Logged Out''\<rparr>, s)"
  using assms by (simp add: logoutUser_def findByIdAndUpdate_def)

text \<open>
  A refresh request after a logout is rejected all the same, by the comparison with the
  property that no document has, not because a token was cleared.
\<close>

lemma refresh_after_logout:
  assumes "req_user lreq = Some u" and "write_ok s"
    and "logoutUser E s lreq = (res, s')"
    and "js_or (js_prop (cookies req) ''refreshToken'')
               (js_prop (body req) ''refreshToken'') = v1" and "truthy v1"
    and "jwt_verify E' v1 (REFRESH_TOKEN_SECRET E') = Inr p"
    and "findById s (js_prop p ''_id'') = Inr (Some d)"
  shows "refereshAccessToken E' s' req =
           (Inl (ApiError 401 ''Refresh Token is expiered or used''), s')"
proof -
  from assms(3) logout_store [OF assms(1,2), of E] have "s' = s" by simp
  with refresh_found [OF assms(4-7)] show ?thesis by simp
qed

text \<open>
  C4. Logout does not clear the persisted refresh token. For a caller that the
  access-token middleware has resolved to an identity with a record, and a store that
  accepts writes, the handler answers 200 "User Logged Out" and clears the two cookies,
  but the update it sends sets \<^verbatim>\<open>refreshToken\<close> to \<^verbatim>\<open>undefined\<close>, which the database
  library drops: the store is left exactly as it was, and the identity's record holds
  after the logout the refresh token it held before.
\<close>

theorem logout_leaves_token:
  assumes "req_user lreq = Some u"
    and "persisted s (uid u) = Some old"
    and "write_ok s"
  shows "logoutUser E s lreq =
           (Inr \<lparr>status = 200, set_cookies = [],
                 cleared_cookies = [''accessToken'', ''refreshToken''], data = [],
                 response_message = ''User Logged Out''\<rparr>, s)
       \<and> persisted (snd (logoutUser E s lreq)) (uid u) = Some old"
  using assms logout_store [of lreq u s E] by simp

theorem logout_leaves_token_witness:
  "persisted demo_store ''u1'' = Some (JStr ''rt-u1-v1'')
   \<and> logoutUser demo_env demo_store (logout_request alice) =
       (Inr \<lparr>status = 200, set_cookies = [],
             cleared_cookies = [''accessToken'', ''refreshToken''], data = [],
             response_message = ''User Logged Out''\<rparr>, demo_store)
   \<and> persisted (snd (logoutUser demo_env demo_store (logout_request alice))) ''u1'' =
       Some (JStr ''rt-u1-v1'')
   \<and> JStr ''rt-u1-v1'' \<noteq> Undefined"
proof -
  have u: "req_user (logout_request alice) = Some alice" by (simp add: logout_request_def)
  have i: "uid alice = ''u1''" by (simp add: alice_def)
  have old: "persisted demo_store (uid alice) = Some (JStr ''rt-u1-v1'')"
    by (simp add: i demo_persisted)
  have up: "write_ok demo_store" by (simp add: demo_store_def)
  from logout_leaves_token [OF u old up, of demo_env] demo_persisted i
  show ?thesis by simp
qed


section \<open>The checks of the refresh handler and the errors it surfaces\<close>

lemma refresh_absent:
  assumes "\<not> truthy (js_or (js_prop (cookies req) ''refreshToken'')
                           (js_prop (body req) ''refreshToken''))"
  shows "refereshAccessToken E s req = (Inl (ApiError 401 ''unauthorized request''), s)"
  using assms by (simp add: refereshAccessToken_def Let_def)

lemma refresh_rewraps:
  assumes "js_or (js_prop (cookies req) ''refreshToken'')
                 (js_prop (body req) ''refreshToken'') = t"
    and "truthy t"
    and "refresh_try E s t = (Inl x, s1)"
  shows "refereshAccessToken E s req = (Inl (refresh_catch x), s1)"
  using assms by (simp add: refereshAccessToken_def Let_def)

lemma refresh_try_bad_signature:
  "jwt_verify E t (REFRESH_TOKEN_SECRET E) = Inl x \<Longrightarrow> refresh_try E s t = (Inl x, s)"
  by (simp add: refresh_try_def)

lemma refresh_try_unknown_identity:
  assumes "jwt_verify E t (REFRESH_TOKEN_SECRET E) = Inr p"
    and "findById s (js_prop p ''_id'') = Inr None"
  shows "refresh_try E s t = (Inl (ApiError 401 ''Invalid refresh token''), s)"
  using assms by (simp add: refresh_try_def)

lemma statusCode_refresh_catch: "statusCode (refresh_catch x) = Some 401"
  by (simp add: refresh_catch_def)

text \<open>
  C6. The refresh handler checks in this order and stops at the first check that fails:
  a request presenting no (truthy) refresh token fails with the 401 "unauthorized
  request", whatever else holds; a presented token that \<^verbatim>\<open>jwt.verify\<close> rejects fails
  with a 401 carrying the library's message (or "Invalid refresh token" when that message
  is empty), whatever the store holds; a verified token whose \<^verbatim>\<open>_id\<close> has no record
  fails with the 401 "Invalid refresh token". The store is left as it was in each case.
\<close>

theorem refresh_checks_in_order:
  assumes "incoming = js_or (js_prop (cookies req) ''refreshToken'')
                            (js_prop (body req) ''refreshToken'')"
  shows "(\<not> truthy incoming \<longrightarrow>
            refereshAccessToken E s req = (Inl (ApiError 401 ''unauthorized request''), s))
       \<and> (\<forall>x. truthy incoming \<and> jwt_verify E incoming (REFRESH_TOKEN_SECRET E) = Inl x \<longrightarrow>
            refereshAccessToken E s req =
              (Inl (ApiError 401
                 (if message x = [] then ''Invalid refresh token'' else message x)), s))
       \<and> (\<forall>p. truthy incoming \<and> jwt_verify E incoming (REFRESH_TOKEN_SECRET E) = Inr p
              \<and> findById s (js_prop p ''_id'') = Inr None \<longrightarrow>
            refereshAccessToken E s req = (Inl (ApiError 401 ''Invalid refresh token''), s))"
proof (intro conjI allI impI)
  assume "\<not> truthy incoming"
  with assms show "refereshAccessToken E s req =
                     (Inl (ApiError 401 ''unauthorized request''), s)"
    by (simp add: refresh_absent)
next
  fix x
  assume h: "truthy incoming \<and> jwt_verify E incoming (REFRESH_TOKEN_SECRET E) = Inl x"
  then have "refresh_try E s incoming = (Inl x, s)"
    by (simp add: refresh_try_bad_signature)
  from refresh_rewraps [OF assms [symmetric] _ this] h
  show "refereshAccessToken E s req =
          (Inl (ApiError 401
             (if message x = [] then ''Invalid refresh token'' else message x)), s)"
    by (simp add: refresh_catch_def)
next
  fix p
  assume h: "truthy incoming \<and> jwt_verify E incoming (REFRESH_TOKEN_SECRET E) = Inr p
             \<and> findById s (js_prop p ''_id'') = Inr None"
  then have "refresh_try E s incoming = (Inl (ApiError 401 ''Invalid refresh token''), s)"
    by (simp add: refresh_try_unknown_identity)
  from refresh_rewraps [OF assms [symmetric] _ this] h
  show "refereshAccessToken E s req = (Inl (ApiError 401 ''Invalid refresh token''), s)"
    by (simp add: refresh_catch_def)
qed

theorem refresh_checks_in_order_witness:
  "refereshAccessToken demo_env demo_store (refresh_request Undefined) =
     (Inl (ApiError 401 ''unauthorized request''), demo_store)
   \<and> jwt_verify demo_env (JStr ''bogus'') (REFRESH_TOKEN_SECRET demo_env) =
       Inl (JsError ''invalid signature'')
   \<and> refereshAccessToken demo_env demo_store (refresh_request (JStr ''bogus'')) =
       (Inl (ApiError 401 ''invalid signature''), demo_store)
   \<and> jwt_verify demo_env (JStr ''rt-u9-v1'') (REFRESH_TOKEN_SECRET demo_env) =
       Inr [(''_id'', JStr ''u9'')]
   \<and> findById demo_store (JStr ''u9'') = Inr None
   \<and> refereshAccessToken demo_env demo_store (refresh_request (JStr ''rt-u9-v1'')) =
       (Inl (ApiError 401 ''Invalid refresh token''), demo_store)"
proof -
  have inc: "t = js_or (js_prop (cookies (refresh_request t)) ''refreshToken'')
                       (js_prop (body (refresh_request t)) ''refreshToken'')"
    if "truthy t \<or> t = Undefined" for t
    using that by (auto simp: demo_presented)
  have bad: "jwt_verify demo_env (JStr ''bogus'') (REFRESH_TOKEN_SECRET demo_env) =
               Inl (JsError ''invalid signature'')"
    by (simp add: demo_env_def demo_verify_def)
  have u9: "jwt_verify demo_env (JStr ''rt-u9-v1'') (REFRESH_TOKEN_SECRET demo_env) =
              Inr [(''_id'', JStr ''u9'')]"
    by (simp add: demo_env_def demo_verify_def)
  have none: "findById demo_store (JStr ''u9'') = Inr None"
    by (simp add: findById_def demo_store_def alice_def)
  have "refereshAccessToken demo_env demo_store (refresh_request Undefined) =
          (Inl (ApiError 401 ''unauthorized request''), demo_store)"
    using refresh_checks_in_order [OF inc [of Undefined], of demo_env demo_store] by simp
  moreover
  have "refereshAccessToken demo_env demo_store (refresh_request (JStr ''bogus'')) =
          (Inl (ApiError 401 ''invalid signature''), demo_store)"
    using refresh_checks_in_order [OF inc [of "JStr ''bogus''"], of demo_env demo_store] bad
    by simp
  moreover
  have "refereshAccessToken demo_env demo_store (refresh_request (JStr ''rt-u9-v1'')) =
          (Inl (ApiError 401 ''Invalid refresh token''), demo_store)"
    using refresh_checks_in_order [OF inc [of "JStr ''rt-u9-v1''"], of demo_env demo_store]
      u9 none
    by (simp add: js_prop_def)
  ultimately show ?thesis using bad u9 none by simp
qed

text \<open>
  C9. Every failure of the refresh handler is an \<^verbatim>\<open>ApiError\<close> with status 401: the
  missing-token error is thrown as a 401, and whatever is thrown inside the \<^verbatim>\<open>try\<close>
  is replaced by the catch clause with a 401 that keeps only its message. The catch
  clause turns the issuer's fixed 500 error into a 401 with the issuer's message, so no
  refresh failure carries the status 500.
\<close>

theorem refresh_failures_are_401:
  assumes "refereshAccessToken E s req = (Inl e, s')"
  shows "statusCode e = Some 401
       \<and> statusCode (refresh_catch x) = Some 401
       \<and> refresh_catch issue_failed =
           ApiError 401 ''Something went wrong while generating the access and refresh token''"
proof -
  from assms have "statusCode e = Some 401"
    by (auto simp: refereshAccessToken_def Let_def statusCode_refresh_catch
        split: if_splits prod.splits sum.splits)
  then show ?thesis
    by (simp add: statusCode_refresh_catch) (simp add: refresh_catch_def issue_failed_def)
qed

theorem refresh_failures_are_401_witness:
  "refereshAccessToken demo_env demo_store (refresh_request (JStr ''bogus'')) =
     (Inl (ApiError 401 ''invalid signature''), demo_store)
   \<and> statusCode (ApiError 401 ''invalid signature'') = Some 401
   \<and> statusCode (refresh_catch (JsError ''MongoError'')) = Some 401"
proof -
  have r: "refereshAccessToken demo_env demo_store (refresh_request (JStr ''bogus'')) =
             (Inl (ApiError 401 ''invalid signature''), demo_store)"
    by (simp add: refereshAccessToken_def refresh_try_def refresh_catch_def js_or_def
        js_prop_def refresh_request_def demo_env_def demo_verify_def)
  from refresh_failures_are_401 [OF r, of "JsError ''MongoError''"] r
  show ?thesis by simp
qed

section \<open>Login with a wrong password\<close>

text \<open>
  C8. A login request that names a user (by username or email) found in the store, with
  a password for which the password check answers false, fails with the 401 "Invalid
  user credentials !": no response and no token is produced, and the store, so also the
  user's persisted refresh token, is left as it was.
\<close>

theorem login_wrong_password:
  assumes "truthy (js_prop (body req) ''username'') \<or> truthy (js_prop (body req) ''email'')"
    and "findOne s (js_prop (body req) ''username'') (js_prop (body req) ''email'') =
           Inr (Some u)"
    and "isPasswordCorrect E u (js_prop (body req) ''password'') = Inr False"
  shows "loginUser E s req = (Inl (ApiError 401 ''Invalid user credentials !''), s)
       \<and> persisted (snd (loginUser E s req)) (uid u) = persisted s (uid u)"
proof -
  from assms have "loginUser E s req = (Inl (ApiError 401 ''Invalid user credentials !''), s)"
    by (auto simp: loginUser_def Let_def)
  then show ?thesis by simp
qed

theorem login_wrong_password_witness:
  "findOne demo_store (JStr ''alice'') Undefined = Inr (Some alice)
   \<and> isPasswordCorrect demo_env alice (JStr ''wrong'') = Inr False
   \<and> loginUser demo_env demo_store (login_request ''alice'' ''wrong'') =
       (Inl (ApiError 401 ''Invalid user credentials !''), demo_store)
   \<and> persisted demo_store ''u1'' = Some (JStr ''rt-u1-v1'')"
proof -
  have b: "js_prop (body (login_request ''alice'' ''wrong'')) ''username'' = JStr ''alice''"
    "js_prop (body (login_request ''alice'' ''wrong'')) ''email'' = Undefined"
    "js_prop (body (login_request ''alice'' ''wrong'')) ''password'' = JStr ''wrong''"
    by (simp_all add: login_request_def js_prop_def)
  have t: "truthy (js_prop (body (login_request ''alice'' ''wrong'')) ''username'')
         \<or> truthy (js_prop (body (login_request ''alice'' ''wrong'')) ''email'')"
    by (simp add: b)
  have f: "findOne demo_store (JStr ''alice'') Undefined = Inr (Some alice)"
    by (simp add: findOne_def demo_store_def alice_def)
  have c: "isPasswordCorrect demo_env alice (JStr ''wrong'') = Inr False"
    by (simp add: demo_env_def)
  from login_wrong_password [of "login_request ''alice'' ''wrong''" demo_store alice demo_env]
    t f c b demo_persisted
  show ?thesis by simp
qed

section \<open>Issuing and then verifying an access token\<close>

text \<open>
  C7. Let the user model sign access tokens as the spec describes them, with a JWT
  library whose check accepts what it signed and returns the signed payload. When
  issuance for an identity succeeds at time \<open>now\<close>, verifying the returned access token
  (Operation A) at any time from \<open>now\<close> up to the token's expires-at resolves to the id
  that the pair was issued for.
\<close>

theorem issue_then_verify_roundtrip:
  assumes lib: "\<And>p t. jwt_sign J p (ACCESS_TOKEN_SECRET J) = Inr t \<Longrightarrow>
                       jwt_check J (JStr t) (ACCESS_TOKEN_SECRET J) = Inr p"
    and signs: "generateAccessToken E = signAccessToken J now"
    and time: "now \<le> now'" "now' \<le> now + ACCESS_TOKEN_EXPIRY J"
    and issue: "generateAccessAndRefreshToken E s (JStr i) = (Inr pair, s')"
  shows "verifyJWT J now' (js_prop pair ''accessToken'') = Inr (JStr i)"
proof -
  from issue_success [OF issue] obtain u a r where
    found: "findById s (JStr i) = Inr (Some u)"
    and signed: "generateAccessToken E u = Inr a"
    and saved: "save s (u\<lparr>refreshToken := JStr r\<rparr>) = Inr s'"
    and pair: "pair = [(''accessToken'', JStr a), (''refreshToken'', JStr r)]"
    by blast
  from saved_document(1) [OF found saved] have i: "uid u = i" by simp
  let ?p = "[(''_id'', JStr i), (''iat'', JNum now),
             (''exp'', JNum (now + ACCESS_TOKEN_EXPIRY J))]"
  from signed signs i have "jwt_sign J ?p (ACCESS_TOKEN_SECRET J) = Inr a"
    by (simp add: signAccessToken_def)
  then have "jwt_check J (JStr a) (ACCESS_TOKEN_SECRET J) = Inr ?p" by (rule lib)
  moreover from pair have "js_prop pair ''accessToken'' = JStr a"
    by (simp add: js_prop_def)
  ultimately show ?thesis using time
    by (simp add: verifyJWT_def js_prop_def)
qed

theorem issue_then_verify_roundtrip_witness:
  "generateAccessAndRefreshToken demo_env_jwt demo_store (JStr ''u1'') =
     (Inr [(''accessToken'', JStr ''at-u1-1000''), (''refreshToken'', JStr ''rt-u1-v2'')],
      rotated_store)
   \<and> verifyJWT demo_jwt 1500 (JStr ''at-u1-1000'') = Inr (JStr ''u1'')"
proof -
  have lib: "jwt_check demo_jwt (JStr t) (ACCESS_TOKEN_SECRET demo_jwt) = Inr p"
    if "jwt_sign demo_jwt p (ACCESS_TOKEN_SECRET demo_jwt) = Inr t" for p t
    using that by (auto simp: demo_jwt_def split: if_splits)
  have signs: "generateAccessToken demo_env_jwt = signAccessToken demo_jwt 1000"
    by (simp add: demo_env_jwt_def)
  have time: "(1000::int) \<le> 1500" "(1500::int) \<le> 1000 + ACCESS_TOKEN_EXPIRY demo_jwt"
    by (simp_all add: demo_jwt_def)
  have issue: "generateAccessAndRefreshToken demo_env_jwt demo_store (JStr ''u1'') =
       (Inr [(''accessToken'', JStr ''at-u1-1000''), (''refreshToken'', JStr ''rt-u1-v2'')],
        rotated_store)"
    by (simp add: generateAccessAndRefreshToken_def generate_try_def findById_def save_def
        demo_env_jwt_def demo_env_def demo_store_def rotated_store_def alice_def
        signAccessToken_def demo_jwt_def demo_payload_def)
  from issue_then_verify_roundtrip [OF lib signs time issue] issue
  show ?thesis by (simp add: js_prop_def)
qed

end
